theory Spec2Isabelle
  imports Complex_Main "HOL-Library.Multiset"
begin

section \<open>Values of the survey table\<close>

text \<open>
  A numeric cell of the table is a Python number. The program only ever compares such a
  number with a literal (\<open>18.5\<close>, \<open>25\<close>, \<open>30\<close>, \<open>3\<close>) and these comparisons are
  exact, so a number is represented by the real it denotes, with the three special floats
  kept apart.
\<close>

datatype pyfloat = Fin real | PInf | NInf | NaN

text \<open>\<open>x < c\<close> and \<open>x >= c\<close> for a finite literal \<open>c\<close>; every comparison with NaN is false.\<close>

fun pf_lt :: "pyfloat \<Rightarrow> real \<Rightarrow> bool" where
  "pf_lt (Fin r) c = (r < c)"
| "pf_lt PInf c = False"
| "pf_lt NInf c = True"
| "pf_lt NaN c = False"

fun pf_ge :: "pyfloat \<Rightarrow> real \<Rightarrow> bool" where
  "pf_ge (Fin r) c = (c \<le> r)"
| "pf_ge PInf c = True"
| "pf_ge NInf c = False"
| "pf_ge NaN c = False"

fun isnan :: "pyfloat \<Rightarrow> bool" where
  "isnan NaN = True"
| "isnan _ = False"

text \<open>
  A raw cell is a number or a text; the missing marker of the table is the float NaN
  (\<open>np.nan\<close>), which is what an empty spreadsheet cell is read as.
\<close>

datatype cell = Num pyfloat | Str string

fun isna :: "cell \<Rightarrow> bool" where
  "isna (Num x) = isnan x"
| "isna (Str s) = False"

definition notna :: "cell \<Rightarrow> bool" where
  "notna c = (\<not> isna c)"

datatype error = KeyError string | TypeError

section \<open>Library operations\<close>

text \<open>
  \<open>pd.to_numeric(column, errors='coerce')\<close>. How the library reads a text as a number is
  not part of the program; it is the parameter \<open>parse\<close> (\<open>None\<close>: the text is not a
  number). A number is kept, a text that does not parse is coerced to NaN, and no cell
  makes the call raise.
\<close>

type_synonym parser = "string \<Rightarrow> pyfloat option"

fun to_numeric_cell :: "parser \<Rightarrow> cell \<Rightarrow> pyfloat" where
  "to_numeric_cell parse (Num x) = x"
| "to_numeric_cell parse (Str s) = (case parse s of Some x \<Rightarrow> x | None \<Rightarrow> NaN)"

definition to_numeric :: "parser \<Rightarrow> cell list \<Rightarrow> error + pyfloat list" where
  "to_numeric parse col = Inr (map (to_numeric_cell parse) col)"

text \<open>
  A reader of unsigned decimal integer literals, on which the library's reader returns
  the integer written. It is one admissible value of the parameter \<open>parse\<close>, used to
  evaluate the model on examples.
\<close>

definition digit_val :: "char \<Rightarrow> nat option" where
  "digit_val c = (let n = (of_char c :: nat) in if 48 \<le> n \<and> n \<le> 57 then Some (n - 48) else None)"

fun digits_val :: "nat \<Rightarrow> string \<Rightarrow> nat option" where
  "digits_val acc [] = Some acc"
| "digits_val acc (c # cs) =
     (case digit_val c of None \<Rightarrow> None | Some d \<Rightarrow> digits_val (10 * acc + d) cs)"

definition parse_digits :: parser where
  "parse_digits s = (if s = [] then None else map_option (\<lambda>n. Fin (real n)) (digits_val 0 s))"

text \<open>\<open>Series.fillna(other)\<close>: a NaN entry takes the entry of \<open>other\<close> at the same position.\<close>

definition fillna :: "pyfloat list \<Rightarrow> pyfloat list \<Rightarrow> pyfloat list" where
  "fillna xs ys = map (\<lambda>(x, y). if isnan x then y else x) (zip xs ys)"

section \<open>Frequency coding\<close>

definition frequency_mapping :: "(string \<times> int) list" where
  "frequency_mapping =
    [(''daily'', 6), (''Daily'', 6), (''DAILY'', 6),
     (''4-6x'', 5), (''4-6X'', 5),
     (''2-3x'', 4), (''2-3X'', 4),
     (''1x'', 3), (''1X'', 3),
     (''occ'', 2), (''Occ'', 2), (''OCC'', 2),
     (''occasionally'', 2), (''Occasionally'', 2),
     (''0x'', 1), (''0X'', 1),
     (''never'', 1), (''Never'', 1), (''NEVER'', 1)]"

text \<open>
  \<open>data[col].map(frequency_mapping)\<close>: a cell that is a key of the dictionary takes the
  value stored there, every other cell (a text that is not a key, a number, NaN) becomes
  NaN. The keys are texts, so a number is never a key.
\<close>

fun map_frequency :: "cell \<Rightarrow> pyfloat" where
  "map_frequency (Str s) =
     (case map_of frequency_mapping s of Some k \<Rightarrow> Fin (of_int k) | None \<Rightarrow> NaN)"
| "map_frequency (Num x) = NaN"

text \<open>
  The body of the coding loop for one food-item column (lines 106 to 114): map the
  column; if an entry is NaN, fill the NaN entries from the numeric reading of the raw
  column, and keep the mapped column if that reading raises (\<open>except: pass\<close>). The
  numeric reading is a parameter here, so that the handler is a branch of the model.
\<close>

definition code_column_with :: "(cell list \<Rightarrow> error + pyfloat list) \<Rightarrow> cell list \<Rightarrow> pyfloat list" where
  "code_column_with to_num col =
     (let coded = map map_frequency col in
      if \<exists>x \<in> set coded. isnan x then
        (case to_num col of
           Inr nums \<Rightarrow> fillna coded nums
         | Inl e \<Rightarrow> coded)
      else coded)"

definition code_column :: "parser \<Rightarrow> cell list \<Rightarrow> pyfloat list" where
  "code_column parse col = code_column_with (to_numeric parse) col"

text \<open>What the loop body computes for a single cell of the column.\<close>

definition code_cell :: "parser \<Rightarrow> cell \<Rightarrow> pyfloat" where
  "code_cell parse c = (if isnan (map_frequency c) then to_numeric_cell parse c else map_frequency c)"

section \<open>BMI categories\<close>

text \<open>
  \<open>categorize_bmi\<close> is applied to the column \<open>BMI_final\<close>, which \<open>to_numeric\<close> has made
  a column of floats.
\<close>

definition categorize_bmi :: "pyfloat \<Rightarrow> string" where
  "categorize_bmi bmi =
     (if isnan bmi then ''Unknown''
      else if pf_lt bmi 18.5 then ''Underweight''
      else if pf_lt bmi 25 then ''Normal''
      else if pf_lt bmi 30 then ''Overweight''
      else ''Obese'')"

text \<open>Lines 128 and 144 for one raw BMI cell.\<close>

definition bmi_category :: "parser \<Rightarrow> cell \<Rightarrow> string" where
  "bmi_category parse raw = categorize_bmi (to_numeric_cell parse raw)"

section \<open>Text normalization\<close>
















section \<open>Food-group catalogs\<close>

text \<open>The dictionary \<open>food_groups\<close> of the preparation script, in its insertion order.\<close>

definition food_groups :: "(string \<times> string list) list" where
  "food_groups =
    [(''Dairy'', [''Milk '', ''Yoghurt'', ''Ice cream'', ''Dairy_Other'']),
     (''Tubers'', [''Yam'', ''Cocoyam'', ''Water yam'', ''Sweet Potatoe'',
        ''Irish Potatoes (Daily/1wk/2-3x/4-6x/Occasional/Never)'', ''Tubers_Other'']),
     (''Legumes'', [''Beans'', ''Pigeon pea'', ''Bambara nut'', ''Soybean products'',
        ''Breadfruit (Daily/1wk/2-3x/4-6x/Occasional/Never)'',
        ''Groundnut'', ''African yam bean'', ''Legumes_Other'']),
     (''Cereals'', [''Rice'', ''Maize'', ''Millet'', ''Guinea corn'', ''Wheat'', ''Oats'',
        ''Cereals_Other'']),
     (''Meats'', [''Beef'', ''Goat meat'', ''Chicken'', ''Turkey'', ''Egg'', ''Fish'',
        ''Pork meat'', ''Snail'', ''Kpomo'']),
     (''Vegetables'', [''Tomatoes'', ''Ugu'', ''Scent leaf'', ''Water leaf'', ''Green'',
        ''Bitter leaf '', ''Carrot'', ''Cabbage'', ''Cucumber'', ''Garden'', ''Okro'',
        ''Pumpkin'', ''Veg_Other'']),
     (''Fruits'', [''Apple'', ''Orange'', ''Grapes'', ''Banana'', ''Soursop'', ''Avocado'',
        ''African pear'', ''Forest pear'', ''Watermelon'', ''Pineapple'', ''Agbalumo'',
        ''Pawpaw'', ''Mango'', ''Guava'', ''Cashew'', ''Fruit_Other'']),
     (''Spices'', [''Garlic '', ''Rosemary'', ''Thyme'', ''Turmeric'', ''Nutmeg'', ''Okpei'',
        ''Ogiri'', ''Spice_Other'']),
     (''Drinks'', [''Water'', ''Soft drinks'', ''Alcoholic beverages'', ''Wines'',
        ''Palm wine'', ''Beer'', ''Drink_Other'']),
     (''Snacks'', [''Biscuits '', ''Chin-chin'', ''Buns'', ''Doughnut'', ''Peanut'',
        ''Plantain'', ''Chocolate'', ''Eggrolls'', ''Snack_Other''])]"

text \<open>The dictionary \<open>food_groups\<close> of \<open>analysis_dietary_patterns.py\<close> (lines 36 to 54).\<close>

definition food_groups_dietary_patterns :: "(string \<times> string list) list" where
  "food_groups_dietary_patterns =
    [(''Dairy'', [''Milk '', ''Yoghurt'', ''Ice cream'', ''Dairy_Other'']),
     (''Tubers'', [''Yam'', ''Cocoyam'', ''Water yam'', ''Sweet Potatoe'',
        ''Irish Potatoes (Daily/1wk/2-3x/4-6x/Occasional/Never)'', ''Tubers_Other'']),
     (''Legumes'', [''Beans'', ''Pigeon pea'', ''Bambara nut'', ''Soybean products'',
        ''Breadfruit (Daily/1wk/2-3x/4-6x/Occasional/Never)'',
        ''Groundnut'', ''African yam bean'', ''Legumes_Other'']),
     (''Cereals'', [''Rice'', ''Maize'', ''Millet'', ''Guinea corn'', ''Wheat'', ''Oats'',
        ''Cereals_Other'']),
     (''Meats'', [''Beef'', ''Goat meat'', ''Chicken'', ''Turkey'', ''Egg'', ''Fish'',
        ''Pork meat'', ''Snail'', ''Kpomo'']),
     (''Vegetables'', [''Tomatoes'', ''Ugu'', ''Scent leaf'', ''Water leaf'', ''Green'',
        ''Bitter leaf '', ''Carrot'', ''Cabbage'', ''Cucumber'', ''Garden'', ''Okro'',
        ''Pumpkin'', ''Veg_Other'']),
     (''Fruits'', [''Apple'', ''Orange'', ''Grapes'', ''Banana'', ''Soursop'', ''Avocado'',
        ''African pear'', ''Forest pear'', ''Watermelon'', ''Pineapple'', ''Agbalumo'',
        ''Pawpaw'', ''Mango'', ''Guava'', ''Cashew'', ''Fruit_Other'']),
     (''Spices'', [''Garlic '', ''Rosemary'', ''Thyme'', ''Turmeric'', ''Nutmeg'', ''Okpei'',
        ''Ogiri'', ''Spice_Other'']),
     (''Drinks'', [''Water'', ''Soft drinks'', ''Alcoholic beverages'', ''Wines'',
        ''Palm wine'', ''Beer'', ''Drink_Other'']),
     (''Snacks'', [''Biscuits '', ''Chin-chin'', ''Buns'', ''Doughnut'', ''Peanut'',
        ''Plantain'', ''Chocolate'', ''Eggrolls'', ''Snack_Other''])]"

text \<open>The dictionary \<open>food_groups\<close> of \<open>advanced_analysis.py\<close> (lines 153 to 169).\<close>

definition food_groups_advanced_analysis :: "(string \<times> string list) list" where
  "food_groups_advanced_analysis =
    [(''Dairy'', [''Milk '', ''Yoghurt'', ''Ice cream'', ''Dairy_Other'']),
     (''Tubers'', [''Yam'', ''Cocoyam'', ''Water yam'', ''Sweet Potatoe'',
        ''Irish Potatoes (Daily/1wk/2-3x/4-6x/Occasional/Never)'', ''Tubers_Other'']),
     (''Legumes'', [''Beans'', ''Pigeon pea'', ''Bambara nut'', ''Soybean products'',
        ''Breadfruit (Daily/1wk/2-3x/4-6x/Occasional/Never)'',
        ''Groundnut'', ''African yam bean'', ''Legumes_Other'']),
     (''Cereals'', [''Rice'', ''Maize'', ''Millet'', ''Guinea corn'', ''Wheat'', ''Oats'',
        ''Cereals_Other'']),
     (''Meats'', [''Beef'', ''Goat meat'', ''Chicken'', ''Turkey'', ''Egg'', ''Fish'',
        ''Pork meat'', ''Snail'', ''Kpomo'']),
     (''Vegetables'', [''Tomatoes'', ''Ugu'', ''Scent leaf'', ''Water leaf'', ''Green'',
        ''Bitter leaf '', ''Carrot'', ''Cabbage'', ''Cucumber'', ''Garden'', ''Okro'',
        ''Pumpkin'', ''Veg_Other'']),
     (''Fruits'', [''Apple'', ''Orange'', ''Grapes'', ''Banana'', ''Soursop'', ''Avocado'',
        ''African pear'', ''Forest pear'', ''Watermelon'', ''Pineapple'', ''Agbalumo'',
        ''Pawpaw'', ''Mango'', ''Guava'', ''Cashew'', ''Fruit_Other'']),
     (''Snacks'', [''Biscuits '', ''Chin-chin'', ''Buns'', ''Doughnut'', ''Peanut'',
        ''Plantain'', ''Chocolate'', ''Eggrolls'', ''Snack_Other''])]"


definition coded_name :: "string \<Rightarrow> string" where
  "coded_name item = item @ ''_coded''"

section \<open>Dietary Diversity Score\<close>

text \<open>
  A row is the record of one participant: the value under each column name of the table.
  The inner loop of \<open>calculate_dds\<close> stops at the first item that is present, not NaN and
  at least 3. Comparing a text with \<open>3\<close> raises \<open>TypeError\<close>.
\<close>

type_synonym row = "string \<rightharpoonup> cell"

fun cell_ge3 :: "cell \<Rightarrow> error + bool" where
  "cell_ge3 (Num x) = Inr (pf_ge x 3)"
| "cell_ge3 (Str s) = Inl TypeError"

fun group_consumed :: "row \<Rightarrow> string list \<Rightarrow> error + bool" where
  "group_consumed row [] = Inr False"
| "group_consumed row (item # items) =
     (case row (coded_name item) of
        None \<Rightarrow> group_consumed row items
      | Some v \<Rightarrow>
          if notna v then
            (case cell_ge3 v of
               Inl e \<Rightarrow> Inl e
             | Inr True \<Rightarrow> Inr True
             | Inr False \<Rightarrow> group_consumed row items)
          else group_consumed row items)"

fun dds_from :: "nat \<Rightarrow> row \<Rightarrow> (string \<times> string list) list \<Rightarrow> error + nat" where
  "dds_from score row [] = Inr score"
| "dds_from score row ((name, items) # groups) =
     (case group_consumed row items of
        Inl e \<Rightarrow> Inl e
      | Inr consumed \<Rightarrow> dds_from (if consumed then score + 1 else score) row groups)"

definition calculate_dds :: "row \<Rightarrow> (string \<times> string list) list \<Rightarrow> error + nat" where
  "calculate_dds row groups = dds_from 0 row groups"

text \<open>
  The score in the words of the specification, to compare \<open>calculate_dds\<close> with: an item
  is consumed weekly when its coded value is present, not NaN and at least 3, and the
  score is the number of groups of the catalog with such an item.
\<close>

definition consumed_weekly :: "row \<Rightarrow> string \<Rightarrow> bool" where
  "consumed_weekly row item = (\<exists>x. row (coded_name item) = Some (Num x) \<and> \<not> isnan x \<and> pf_ge x 3)"

definition dds_spec :: "row \<Rightarrow> (string \<times> string list) list \<Rightarrow> nat" where
  "dds_spec row groups =
     length (filter (\<lambda>(name, items). \<exists>item \<in> set items. consumed_weekly row item) groups)"

text \<open>
  The coded columns of a row hold numbers (NaN among them), as the coder writes them: no
  coded column of an item of the catalog holds a text.
\<close>

definition coded_numeric :: "row \<Rightarrow> (string \<times> string list) list \<Rightarrow> bool" where
  "coded_numeric row groups =
     (\<forall>(name, items) \<in> set groups. \<forall>item \<in> set items. \<forall>s. row (coded_name item) \<noteq> Some (Str s))"

section \<open>The preparation run\<close>

text \<open>
  The table in memory: the number of rows and the column stored under each column name.
  Every column of a table read from a spreadsheet has one entry per row.
\<close>

record frame =
  nrows :: nat
  cols :: "string \<rightharpoonup> cell list"







text \<open>
  Line 174: \<open>calculate_dds\<close> is applied to the rows from the first to the last; the first
  row on which it raises ends the run.
\<close>

definition row_at :: "frame \<Rightarrow> nat \<Rightarrow> row" where
  "row_at d i = (\<lambda>c. map_option (\<lambda>vs. vs ! i) (cols d c))"

fun collect :: "(error + 'a) list \<Rightarrow> error + 'a list" where
  "collect [] = Inr []"
| "collect (r # rs) =
     (case r of
        Inl e \<Rightarrow> Inl e
      | Inr x \<Rightarrow> (case collect rs of Inl e \<Rightarrow> Inl e | Inr xs \<Rightarrow> Inr (x # xs)))"

definition add_dds :: "frame \<Rightarrow> error + frame" where
  "add_dds d =
     (case collect (map (\<lambda>i. calculate_dds (row_at d i) food_groups) [0..<nrows d]) of
        Inl e \<Rightarrow> Inl e
      | Inr scores \<Rightarrow> Inr (d\<lparr>cols := (cols d)(''DDS'' \<mapsto> map (\<lambda>n. Num (Fin (real n))) scores)\<rparr>))"






section \<open>Properties of the BMI categorizer\<close>

lemma categorize_bmi_range:
  "categorize_bmi x \<in> {''Underweight'', ''Normal'', ''Overweight'', ''Obese'', ''Unknown''}"
  by (simp add: categorize_bmi_def)

lemma categorize_bmi_Fin:
  "(categorize_bmi (Fin r) = ''Underweight'') = (r < 18.5)"
  "(categorize_bmi (Fin r) = ''Normal'') = (18.5 \<le> r \<and> r < 25)"
  "(categorize_bmi (Fin r) = ''Overweight'') = (25 \<le> r \<and> r < 30)"
  "(categorize_bmi (Fin r) = ''Obese'') = (30 \<le> r)"
  "categorize_bmi (Fin r) \<noteq> ''Unknown''"
  by (auto simp add: categorize_bmi_def)

lemma categorize_bmi_Unknown: "(categorize_bmi x = ''Unknown'') = isnan x"
  by (cases x) (auto simp add: categorize_bmi_def)

lemma categorize_bmi_special:
  "categorize_bmi NaN = ''Unknown''" "categorize_bmi PInf = ''Obese''" "categorize_bmi NInf = ''Underweight''"
  by (simp_all add: categorize_bmi_def)

lemma categorize_bmi_examples:
  "categorize_bmi (Fin 18.5) = ''Normal''"
  "categorize_bmi (Fin 18.49999) = ''Underweight''"
  "categorize_bmi (Fin 29.9999) = ''Overweight''"
  "categorize_bmi (Fin 30) = ''Obese''"
  by (simp_all add: categorize_bmi_def)

text \<open>
  C2. The categorizer returns, for every raw BMI cell, one of the five labels. A missing
  cell and a text that is not a number give \<open>Unknown\<close>, and \<open>Unknown\<close> is given only when
  the numeric reading is NaN. On a finite number the thresholds are half-open and
  inclusive on the lower bound: below 18.5 \<open>Underweight\<close>, from 18.5 and below 25
  \<open>Normal\<close>, from 25 and below 30 \<open>Overweight\<close>, from 30 \<open>Obese\<close>; so 18.5 is \<open>Normal\<close>,
  18.49999 is \<open>Underweight\<close>, 29.9999 is \<open>Overweight\<close> and 30 is \<open>Obese\<close>. NaN gives
  \<open>Unknown\<close>, plus infinity \<open>Obese\<close> and minus infinity \<open>Underweight\<close>.
\<close>

theorem bmi_category_partition:
  "bmi_category parse raw \<in> {''Underweight'', ''Normal'', ''Overweight'', ''Obese'', ''Unknown''}
   \<and> (isna raw \<longrightarrow> bmi_category parse raw = ''Unknown'')
   \<and> (parse s = None \<longrightarrow> bmi_category parse (Str s) = ''Unknown'')
   \<and> (bmi_category parse raw = ''Unknown'') = isnan (to_numeric_cell parse raw)
   \<and> (bmi_category parse (Num (Fin r)) = ''Underweight'') = (r < 18.5)
   \<and> (bmi_category parse (Num (Fin r)) = ''Normal'') = (18.5 \<le> r \<and> r < 25)
   \<and> (bmi_category parse (Num (Fin r)) = ''Overweight'') = (25 \<le> r \<and> r < 30)
   \<and> (bmi_category parse (Num (Fin r)) = ''Obese'') = (30 \<le> r)
   \<and> bmi_category parse (Num (Fin 18.5)) = ''Normal''
   \<and> bmi_category parse (Num (Fin 18.49999)) = ''Underweight''
   \<and> bmi_category parse (Num (Fin 29.9999)) = ''Overweight''
   \<and> bmi_category parse (Num (Fin 30)) = ''Obese''
   \<and> bmi_category parse (Num NaN) = ''Unknown''
   \<and> bmi_category parse (Num PInf) = ''Obese''
   \<and> bmi_category parse (Num NInf) = ''Underweight''"
proof -
  have a: "isna raw \<longrightarrow> bmi_category parse raw = ''Unknown''"
    by (cases raw) (simp_all add: bmi_category_def categorize_bmi_Unknown)
  have b: "parse s = None \<longrightarrow> bmi_category parse (Str s) = ''Unknown''"
    by (simp add: bmi_category_def categorize_bmi_special)
  show ?thesis
    using a b
    by (simp add: bmi_category_def categorize_bmi_range categorize_bmi_Fin
        categorize_bmi_Unknown categorize_bmi_special categorize_bmi_examples del: insert_iff)
qed

theorem bmi_category_partition_witness:
  "isna (Num NaN) \<and> bmi_category parse_digits (Num NaN) = ''Unknown''
   \<and> parse_digits ''n/a'' = None \<and> bmi_category parse_digits (Str ''n/a'') = ''Unknown''
   \<and> bmi_category parse_digits (Str ''17'') = ''Underweight''"
  using bmi_category_partition [of parse_digits "Num NaN" "''n/a''" 17]
  by (simp add: parse_digits_def digit_val_def bmi_category_def categorize_bmi_def)

section \<open>Properties of the frequency coder\<close>

lemma map_frequency_cases:
  "map_frequency c = NaN \<or> (\<exists>k \<in> {1, 2, 3, 4, 5, 6}. map_frequency c = Fin (of_int k))"
proof (cases c)
  case (Num x)
  then show ?thesis by simp
next
  case (Str s)
  show ?thesis
  proof (cases "map_of frequency_mapping s")
    case None
    with Str show ?thesis by simp
  next
    case (Some k)
    then have "(s, k) \<in> set frequency_mapping" by (rule map_of_SomeD)
    then have "k \<in> {1, 2, 3, 4, 5, 6}" by (auto simp add: frequency_mapping_def)
    with Str Some show ?thesis by simp
  qed
qed

lemma fillna_map:
  "fillna (map f col) (map g col) = map (\<lambda>c. if isnan (f c) then g c else f c) col"
  by (induction col) (simp_all add: fillna_def)

lemma code_column_cells: "code_column parse col = map (code_cell parse) col"
proof (cases "\<exists>x \<in> set (map map_frequency col). isnan x")
  case True
  then show ?thesis
    by (simp add: code_column_def code_column_with_def to_numeric_def fillna_map code_cell_def
        del: set_map)
next
  case False
  then have "\<forall>c \<in> set col. \<not> isnan (map_frequency c)" by simp
  then have eq: "map (code_cell parse) col = map map_frequency col"
    by (simp add: code_cell_def)
  have "code_column parse col = map map_frequency col"
    using False by (simp add: code_column_def code_column_with_def Let_def del: set_map)
  with eq show ?thesis by simp
qed
lemma code_cell_Num: "code_cell parse (Num x) = x"
  by (simp add: code_cell_def)

lemma code_cell_Str:
  "code_cell parse (Str s) =
     (case map_of frequency_mapping s of
        Some k \<Rightarrow> Fin (of_int k)
      | None \<Rightarrow> (case parse s of Some x \<Rightarrow> x | None \<Rightarrow> NaN))"
  by (simp add: code_cell_def split: option.splits)










text \<open>
  C6. The coder returns a coded column for every raw column and every reader of numbers.
  An entry is the listed value when the raw cell is a listed text; otherwise it is the
  number the raw cell holds or reads as; and it is NaN when the raw cell is neither.
  When the numeric reading of the column raises, the handler keeps the mapped column,
  in which every cell that is not a listed text is NaN.
\<close>

theorem code_column_never_raises:
  "code_column parse col =
     map (\<lambda>c. case c of
                 Str s \<Rightarrow>
                   (case map_of frequency_mapping s of
                      Some k \<Rightarrow> Fin (of_int k)
                    | None \<Rightarrow> (case parse s of Some x \<Rightarrow> x | None \<Rightarrow> NaN))
               | Num x \<Rightarrow> x) col
   \<and> (to_num col = Inl e \<longrightarrow> code_column_with to_num col = map map_frequency col)"
proof -
  have "code_cell parse = (\<lambda>c. case c of
                 Str s \<Rightarrow>
                   (case map_of frequency_mapping s of
                      Some k \<Rightarrow> Fin (of_int k)
                    | None \<Rightarrow> (case parse s of Some x \<Rightarrow> x | None \<Rightarrow> NaN))
               | Num x \<Rightarrow> x)"
    by (rule ext) (simp add: code_cell_Num code_cell_Str split: cell.splits)
  then have a: "code_column parse col =
     map (\<lambda>c. case c of
                 Str s \<Rightarrow>
                   (case map_of frequency_mapping s of
                      Some k \<Rightarrow> Fin (of_int k)
                    | None \<Rightarrow> (case parse s of Some x \<Rightarrow> x | None \<Rightarrow> NaN))
               | Num x \<Rightarrow> x) col"
    by (simp add: code_column_cells)
  have b: "to_num col = Inl e \<longrightarrow> code_column_with to_num col = map map_frequency col"
    by (simp add: code_column_with_def Let_def)
  from a b show ?thesis by (rule conjI)
qed

theorem code_column_never_raises_witness:
  "(\<lambda>col. Inl TypeError) [Str ''Daily'', Str ''sometimes'', Num (Fin 3)] = (Inl TypeError :: error + pyfloat list)
   \<and> code_column_with (\<lambda>col. Inl TypeError) [Str ''Daily'', Str ''sometimes'', Num (Fin 3)]
       = [Fin 6, NaN, NaN]
   \<and> code_column parse_digits [Str ''Daily'', Str ''sometimes'', Num (Fin 3)] = [Fin 6, NaN, Fin 3]"
  using code_column_never_raises [of parse_digits "[Str ''Daily'', Str ''sometimes'', Num (Fin 3)]"
      "\<lambda>col. Inl TypeError" TypeError]
  by (simp add: frequency_mapping_def parse_digits_def digit_val_def)



section \<open>Properties of the catalogs\<close>

text \<open>
  C4. The catalog of the preparation script and the catalog of
  \<open>analysis_dietary_patterns.py\<close> are the same, group for group and item for item. The
  catalog of \<open>advanced_analysis.py\<close> is the catalog of the preparation script without the
  groups Spices and Drinks, the eight other groups being the same item for item.
\<close>

theorem catalogs_compared:
  "food_groups_dietary_patterns = food_groups
   \<and> food_groups_advanced_analysis =
       filter (\<lambda>(name, items). name \<noteq> ''Spices'' \<and> name \<noteq> ''Drinks'') food_groups"
  by (simp add: food_groups_def food_groups_dietary_patterns_def food_groups_advanced_analysis_def)

text \<open>
  The claim as it is written, that every downstream catalog is identical to the catalog
  of the preparation script, fails on \<open>advanced_analysis.py\<close>, whose catalog has eight
  groups and no group Spices.
\<close>

theorem catalogs_counterexample:
  "food_groups_advanced_analysis \<noteq> food_groups
   \<and> length food_groups = 10 \<and> length food_groups_advanced_analysis = 8
   \<and> map_of food_groups_advanced_analysis ''Spices'' = None
   \<and> map_of food_groups ''Spices'' =
       Some [''Garlic '', ''Rosemary'', ''Thyme'', ''Turmeric'', ''Nutmeg'', ''Okpei'', ''Ogiri'',
             ''Spice_Other'']"
  by (simp add: food_groups_def food_groups_advanced_analysis_def)

section \<open>Properties of the Dietary Diversity Score\<close>

lemma group_consumed_numeric:
  assumes "\<forall>item \<in> set items. \<forall>s. row (coded_name item) \<noteq> Some (Str s)"
  shows "group_consumed row items = Inr (\<exists>item \<in> set items. consumed_weekly row item)"
  using assms
proof (induction items)
  case Nil
  then show ?case by simp
next
  case (Cons item items)
  then have ih: "group_consumed row items = Inr (\<exists>item \<in> set items. consumed_weekly row item)"
    by simp
  show ?case
  proof (cases "row (coded_name item)")
    case None
    then have "\<not> consumed_weekly row item" by (simp add: consumed_weekly_def)
    with None ih show ?thesis by simp
  next
    case (Some v)
    show ?thesis
    proof (cases v)
      case (Str s)
      with Some Cons.prems show ?thesis by simp
    next
      case (Num x)
      with Some have w: "consumed_weekly row item = (\<not> isnan x \<and> pf_ge x 3)"
        by (simp add: consumed_weekly_def)
      from Some Num ih w show ?thesis
        by (cases "pf_ge x 3") (auto simp add: notna_def)
    qed
  qed
qed

lemma dds_from_numeric:
  assumes "coded_numeric row groups"
  shows "dds_from score row groups = Inr (score + dds_spec row groups)"
  using assms
proof (induction groups arbitrary: score)
  case Nil
  then show ?case by (simp add: dds_spec_def)
next
  case (Cons g groups)
  obtain name items where g: "g = (name, items)" by (cases g)
  from Cons.prems g have items: "\<forall>item \<in> set items. \<forall>s. row (coded_name item) \<noteq> Some (Str s)"
    and rest: "coded_numeric row groups"
    by (auto simp add: coded_numeric_def)
  from Cons.IH [OF rest] group_consumed_numeric [OF items] g show ?case
    by (simp add: dds_spec_def)
qed

lemma dds_spec_le: "dds_spec row groups \<le> length groups"
  by (simp add: dds_spec_def)

lemma group_consumed_missing:
  assumes "\<forall>item \<in> set items. row (coded_name item) = None \<or> row (coded_name item) = Some (Num NaN)"
  shows "group_consumed row items = Inr False"
  using assms by (induction items) (auto simp add: notna_def)
lemma dds_spec_mset: "dds_spec row groups =
    size (filter_mset (\<lambda>(name, items). \<exists>item \<in> set items. consumed_weekly row item) (mset groups))"
  by (simp add: dds_spec_def flip: mset_filter)

lemma coded_numeric_set:
  "coded_numeric row groups =
     (\<forall>item \<in> \<Union> (set ` snd ` set groups). \<forall>s. row (coded_name item) \<noteq> Some (Str s))"
  by (auto simp add: coded_numeric_def)

lemma dds_groups_permuted:
  assumes "coded_numeric row groups" and "mset groups' = mset groups"
  shows "calculate_dds row groups' = calculate_dds row groups"
proof -
  from assms(2) have "set groups' = set groups" by (rule mset_eq_setD)
  with assms(1) have n: "coded_numeric row groups'" by (simp add: coded_numeric_def)
  have "dds_spec row groups' = dds_spec row groups"
    using assms(2) by (simp add: dds_spec_mset)
  with dds_from_numeric [OF n, of 0] dds_from_numeric [OF assms(1), of 0]
  show ?thesis by (simp add: calculate_dds_def)
qed

lemma items_permuted_aux:
  assumes "list_all2 (\<lambda>(name, items) (name', items'). mset items' = mset items) groups groups'"
  shows "dds_spec row groups' = dds_spec row groups
    \<and> (coded_numeric row groups \<longrightarrow> coded_numeric row groups')"
  using assms
proof (induction rule: list_all2_induct)
  case Nil
  then show ?case by (simp add: dds_spec_def coded_numeric_def)
next
  case (Cons g groups g' groups')
  obtain name items name' items' where g: "g = (name, items)" "g' = (name', items')"
    by (cases g, cases g')
  with Cons.hyps have "mset items' = mset items" by simp
  then have "set items' = set items" by (rule mset_eq_setD)
  with Cons.IH g show ?case
    by (simp add: dds_spec_def coded_numeric_def)
qed

lemma dds_items_permuted:
  assumes "coded_numeric row groups"
    and "list_all2 (\<lambda>(name, items) (name', items'). mset items' = mset items) groups groups'"
  shows "calculate_dds row groups' = calculate_dds row groups"
proof -
  from items_permuted_aux [OF assms(2), of row] assms(1)
  have n: "coded_numeric row groups'" and e: "dds_spec row groups' = dds_spec row groups"
    by simp_all
  with dds_from_numeric [OF n, of 0] dds_from_numeric [OF assms(1), of 0]
  show ?thesis by (simp add: calculate_dds_def)
qed

lemma group_consumed_cong:
  assumes "\<forall>item \<in> set items. row' (coded_name item) = row (coded_name item)"
  shows "group_consumed row' items = group_consumed row items"
  using assms by (induction items) (simp_all split: option.splits sum.splits bool.splits)

lemma dds_from_cong:
  assumes "\<forall>(name, items) \<in> set groups. \<forall>item \<in> set items. row' (coded_name item) = row (coded_name item)"
  shows "dds_from score row' groups = dds_from score row groups"
  using assms
proof (induction groups arbitrary: score)
  case Nil
  then show ?case by simp
next
  case (Cons g groups)
  obtain name items where g: "g = (name, items)" by (cases g)
  with Cons.prems have "group_consumed row' items = group_consumed row items"
    by (simp add: group_consumed_cong)
  with Cons g show ?case by (simp split: sum.splits)
qed

lemma add_dds_frame:
  assumes "add_dds d = Inr d'"
  shows "nrows d' = nrows d \<and> (\<forall>c. c \<noteq> ''DDS'' \<longrightarrow> cols d' c = cols d c)"
  using assms by (auto simp add: add_dds_def split: sum.splits)

lemma coded_name_not_DDS: "coded_name item \<noteq> ''DDS''"
proof
  assume "coded_name item = ''DDS''"
  then have "last (coded_name item) = last ''DDS''" by simp
  then show False by (simp add: coded_name_def)
qed

text \<open>
  C1. On a row whose coded columns hold numbers, \<open>calculate_dds\<close> returns without error
  the number of groups of the catalog that have an item whose coded value is present and
  at least 3. That number is at most the number of groups, 10 for the fixed catalog; a
  group counts once however many of its items reach 3; and a group whose coded columns
  are all absent or NaN is not consumed.
\<close>

theorem calculate_dds_counts_groups:
  assumes "coded_numeric row groups"
  shows "calculate_dds row groups = Inr (dds_spec row groups)
    \<and> dds_spec row groups \<le> length groups
    \<and> (groups = food_groups \<longrightarrow> dds_spec row groups \<le> 10)
    \<and> (\<forall>(name, items) \<in> set groups.
          (\<forall>item \<in> set items.
              row (coded_name item) = None \<or> row (coded_name item) = Some (Num NaN))
          \<longrightarrow> group_consumed row items = Inr False)"
proof -
  have a: "calculate_dds row groups = Inr (dds_spec row groups)"
    using dds_from_numeric [OF assms, of 0] by (simp add: calculate_dds_def)
  have "length food_groups = 10" by (simp add: food_groups_def)
  then have b: "groups = food_groups \<longrightarrow> dds_spec row groups \<le> 10"
    using dds_spec_le [of row food_groups] by auto
  have c: "\<forall>(name, items) \<in> set groups.
          (\<forall>item \<in> set items.
              row (coded_name item) = None \<or> row (coded_name item) = Some (Num NaN))
          \<longrightarrow> group_consumed row items = Inr False"
    using group_consumed_missing by blast
  from a b c dds_spec_le show ?thesis by blast
qed

theorem calculate_dds_counts_groups_witness:
  "coded_numeric
     [coded_name ''Rice'' \<mapsto> Num (Fin 6), coded_name ''Maize'' \<mapsto> Num NaN,
      coded_name ''Beans'' \<mapsto> Num (Fin 2), coded_name ''Milk '' \<mapsto> Num (Fin 3),
      coded_name ''Yoghurt'' \<mapsto> Num (Fin 5)] food_groups
   \<and> calculate_dds
     [coded_name ''Rice'' \<mapsto> Num (Fin 6), coded_name ''Maize'' \<mapsto> Num NaN,
      coded_name ''Beans'' \<mapsto> Num (Fin 2), coded_name ''Milk '' \<mapsto> Num (Fin 3),
      coded_name ''Yoghurt'' \<mapsto> Num (Fin 5)] food_groups = Inr 2"
proof -
  let ?row = "[coded_name ''Rice'' \<mapsto> Num (Fin 6), coded_name ''Maize'' \<mapsto> Num NaN,
      coded_name ''Beans'' \<mapsto> Num (Fin 2), coded_name ''Milk '' \<mapsto> Num (Fin 3),
      coded_name ''Yoghurt'' \<mapsto> Num (Fin 5)]"
  have h: "coded_numeric ?row food_groups"
    by (simp add: coded_numeric_def food_groups_def coded_name_def)
  have e: "dds_spec ?row food_groups = 2"
    by (simp add: dds_spec_def consumed_weekly_def food_groups_def coded_name_def)
  from calculate_dds_counts_groups [OF h] e show ?thesis
    using h by simp
qed

text \<open>
  C8. On a row whose coded columns hold numbers, the score does not change when the
  groups of the catalog are permuted, nor when the items within the groups are permuted;
  it is the same on two rows that agree on the coded columns of the catalog; and adding
  the column \<open>DDS\<close> to the table leaves every coded column as it was.
\<close>

theorem dds_order_independent:
  assumes "coded_numeric row groups"
  shows "(mset groups' = mset groups \<longrightarrow> calculate_dds row groups' = calculate_dds row groups)
    \<and> (list_all2 (\<lambda>(name, items) (name', items'). mset items' = mset items) groups groups'
          \<longrightarrow> calculate_dds row groups' = calculate_dds row groups)
    \<and> ((\<forall>(name, items) \<in> set groups. \<forall>item \<in> set items.
            row' (coded_name item) = row (coded_name item))
          \<longrightarrow> calculate_dds row' groups = calculate_dds row groups)
    \<and> (add_dds d = Inr d' \<longrightarrow> (\<forall>item. cols d' (coded_name item) = cols d (coded_name item)))"
proof -
  have a: "mset groups' = mset groups \<longrightarrow> calculate_dds row groups' = calculate_dds row groups"
    using dds_groups_permuted [OF assms] by blast
  have b: "list_all2 (\<lambda>(name, items) (name', items'). mset items' = mset items) groups groups'
          \<longrightarrow> calculate_dds row groups' = calculate_dds row groups"
    using dds_items_permuted [OF assms] by blast
  have c: "(\<forall>(name, items) \<in> set groups. \<forall>item \<in> set items.
            row' (coded_name item) = row (coded_name item))
          \<longrightarrow> calculate_dds row' groups = calculate_dds row groups"
    using dds_from_cong [of groups row' row 0] by (simp add: calculate_dds_def)
  have d: "add_dds d = Inr d' \<longrightarrow> (\<forall>item. cols d' (coded_name item) = cols d (coded_name item))"
    using add_dds_frame [of d d'] coded_name_not_DDS by blast
  from a b c d show ?thesis by blast
qed

theorem dds_order_independent_witness:
  "coded_numeric [coded_name ''Rice'' \<mapsto> Num (Fin 6), coded_name ''Milk '' \<mapsto> Num (Fin 2)] food_groups
   \<and> mset (rev food_groups) = mset food_groups
   \<and> calculate_dds [coded_name ''Rice'' \<mapsto> Num (Fin 6), coded_name ''Milk '' \<mapsto> Num (Fin 2)]
        (rev food_groups) = Inr 1
   \<and> list_all2 (\<lambda>(name, items) (name', items'). mset items' = mset items) food_groups
        (map (\<lambda>(name, items). (name, rev items)) food_groups)
   \<and> calculate_dds [coded_name ''Rice'' \<mapsto> Num (Fin 6), coded_name ''Milk '' \<mapsto> Num (Fin 2)]
        (map (\<lambda>(name, items). (name, rev items)) food_groups) = Inr 1
   \<and> calculate_dds [coded_name ''Rice'' \<mapsto> Num (Fin 6), coded_name ''Milk '' \<mapsto> Num (Fin 2),
          ''Residence'' \<mapsto> Str ''Urban''] food_groups = Inr 1
   \<and> add_dds \<lparr>nrows = 1, cols = [coded_name ''Rice'' \<mapsto> [Num (Fin 6)]]\<rparr>
        = Inr \<lparr>nrows = 1, cols = [coded_name ''Rice'' \<mapsto> [Num (Fin 6)], ''DDS'' \<mapsto> [Num (Fin 1)]]\<rparr>
   \<and> cols \<lparr>nrows = 1, cols = [coded_name ''Rice'' \<mapsto> [Num (Fin 6)], ''DDS'' \<mapsto> [Num (Fin 1)]]\<rparr>
         (coded_name ''Rice'') = Some [Num (Fin 6)]"
proof -
  let ?row = "[coded_name ''Rice'' \<mapsto> Num (Fin 6), coded_name ''Milk '' \<mapsto> Num (Fin 2)]"
  let ?row' = "[coded_name ''Rice'' \<mapsto> Num (Fin 6), coded_name ''Milk '' \<mapsto> Num (Fin 2),
          ''Residence'' \<mapsto> Str ''Urban'']"
  let ?items = "map (\<lambda>(name, items). (name, rev items)) food_groups"
  let ?d = "\<lparr>nrows = 1, cols = [coded_name ''Rice'' \<mapsto> [Num (Fin 6)]]\<rparr>"
  let ?d' = "\<lparr>nrows = 1, cols = [coded_name ''Rice'' \<mapsto> [Num (Fin 6)], ''DDS'' \<mapsto> [Num (Fin 1)]]\<rparr>"
  have h: "coded_numeric ?row food_groups"
    by (simp add: coded_numeric_def food_groups_def coded_name_def)
  have e: "calculate_dds ?row food_groups = Inr 1"
    using dds_from_numeric [OF h, of 0]
    by (simp add: calculate_dds_def dds_spec_def consumed_weekly_def food_groups_def coded_name_def)
  have p1: "mset (rev food_groups) = mset food_groups" by simp
  have p2: "list_all2 (\<lambda>(name, items) (name', items'). mset items' = mset items) food_groups ?items"
    by (simp add: list_all2_map2 list_all2_same split_def)
  have p3: "\<forall>(name, items) \<in> set food_groups. \<forall>item \<in> set items.
            ?row' (coded_name item) = ?row (coded_name item)"
    by (simp add: food_groups_def coded_name_def)
  have c: "calculate_dds (row_at ?d 0) food_groups = Inr 1"
    by (simp add: row_at_def calculate_dds_def food_groups_def coded_name_def notna_def)
  have p4: "add_dds ?d = Inr ?d'"
    using c by (simp add: add_dds_def)
  note t1 = dds_order_independent [OF h, of "rev food_groups" ?row' ?d ?d']
  note t2 = dds_order_independent [OF h, of ?items ?row' ?d ?d']
  from t1 p1 e have r1: "calculate_dds ?row (rev food_groups) = Inr 1" by simp
  from t2 p2 e have r2: "calculate_dds ?row ?items = Inr 1" by simp
  from t1 p3 e have r3: "calculate_dds ?row' food_groups = Inr 1" by simp
  from t1 p4 have r4: "cols ?d' (coded_name ''Rice'') = cols ?d (coded_name ''Rice'')" by blast
  then have r5: "cols ?d' (coded_name ''Rice'') = Some [Num (Fin 6)]" by simp
  from h p1 r1 p2 r2 r3 p4 r5 show ?thesis by blast
qed

section \<open>Properties of the text normalization\<close>
























section \<open>Properties of the preparation run\<close>

























end
